theory Spec2Isabelle
  imports Complex_Main "HOL-Library.Sublist"
begin

section \<open>Data model of the permission hooks\<close>

text \<open>
  The entity types of \<^verbatim>\<open>src/types\<close> as the hooks use them. Field names carry the
  entity as a prefix (\<^verbatim>\<open>permission.name\<close> is \<open>perm_name\<close>, \<^verbatim>\<open>role.name\<close> is
  \<open>role_name\<close>, \<^verbatim>\<open>dept.slug\<close> is \<open>dept_slug\<close>). A field the code reads with
  \<^verbatim>\<open>?.\<close> is optional: \<open>None\<close> stands for \<^verbatim>\<open>undefined\<close>. Strings are lists of
  8-bit characters.
\<close>

record Permission =
  perm_id :: int
  perm_name :: string
  perm_action :: string

record Role =
  role_id :: int
  role_name :: string

record Department =
  dept_id :: int
  dept_slug :: string
  dept_name :: string

record User =
  permissions :: "Permission list option"
  roles :: "Role list option"
  departments :: "Department list option"

text \<open>\<^verbatim>\<open>interface DynamicPermissionCheck\<close>: every field is optional.\<close>

record DynamicPermissionCheck =
  departmentSlug :: "string option"
  action :: "string option"
  requireAdmin :: "bool option"
  requireManager :: "bool option"
  requireSpecificRole :: "string option"
  requireAnyRole :: "string list option"

subsection \<open>JavaScript truthiness of the optional fields\<close>

text \<open>
  \<^verbatim>\<open>if (check.departmentSlug && ...)\<close> tests truthiness: an absent string and the
  empty string are both falsy; an absent boolean and \<^verbatim>\<open>false\<close> are both falsy; an
  array, even an empty one, is truthy.
\<close>

definition truthyString :: "string option \<Rightarrow> bool" where
  "truthyString s = (case s of None \<Rightarrow> False | Some v \<Rightarrow> v \<noteq> [])"

definition truthyBool :: "bool option \<Rightarrow> bool" where
  "truthyBool b = (case b of None \<Rightarrow> False | Some v \<Rightarrow> v)"

section \<open>src/hooks/useDynamicPermission.ts\<close>

subsection \<open>The permission snapshot\<close>

text \<open>The key \<^verbatim>\<open>`${permission.name}:${permission.action}`\<close>.\<close>

definition permissionKey :: "Permission \<Rightarrow> string" where
  "permissionKey permission = perm_name permission @ '':'' @ perm_action permission"

text \<open>
  \<^verbatim>\<open>uniqueMap\<close> is a JavaScript \<^verbatim>\<open>Map\<close>, which iterates in insertion order: an
  association list that grows at its end. One step of the \<^verbatim>\<open>forEach\<close>:
  \<^verbatim>\<open>if (!uniqueMap.has(key)) uniqueMap.set(key, permission)\<close>.
\<close>

definition uniqueMapStep :: "(string \<times> Permission) list \<Rightarrow> Permission \<Rightarrow> (string \<times> Permission) list" where
  "uniqueMapStep uniqueMap permission =
     (let key = permissionKey permission
      in if map_of uniqueMap key = None then uniqueMap @ [(key, permission)] else uniqueMap)"

definition uniquePermissions :: "Permission list \<Rightarrow> Permission list" where
  "uniquePermissions ps = map snd (foldl uniqueMapStep [] ps)"

definition userPermissions :: "User option \<Rightarrow> Permission list" where
  "userPermissions user =
     (case user of
        None \<Rightarrow> []
      | Some u \<Rightarrow> (case permissions u of None \<Rightarrow> [] | Some ps \<Rightarrow> uniquePermissions ps))"

definition userRoles :: "User option \<Rightarrow> string list" where
  "userRoles user =
     (case user of
        None \<Rightarrow> []
      | Some u \<Rightarrow> (case roles u of None \<Rightarrow> [] | Some rs \<Rightarrow> map role_name rs))"

definition userDepartments :: "User option \<Rightarrow> Department list" where
  "userDepartments user =
     (case user of
        None \<Rightarrow> []
      | Some u \<Rightarrow> (case departments u of None \<Rightarrow> [] | Some ds \<Rightarrow> ds))"

definition isAdmin :: "User option \<Rightarrow> bool" where
  "isAdmin user = (''admin'' \<in> set (userRoles user))"

definition isManager :: "User option \<Rightarrow> bool" where
  "isManager user =
     list_ex (\<lambda>role. role = ''manager'' \<or> prefix ''manager-'' role) (userRoles user)"

subsection \<open>The evaluator\<close>

text \<open>The four role clauses, each true when its \<^verbatim>\<open>if\<close> fires and the check is denied.\<close>

definition deniedByAdmin :: "User option \<Rightarrow> DynamicPermissionCheck \<Rightarrow> bool" where
  "deniedByAdmin user check = (truthyBool (requireAdmin check) \<and> \<not> isAdmin user)"

definition deniedByManager :: "User option \<Rightarrow> DynamicPermissionCheck \<Rightarrow> bool" where
  "deniedByManager user check = (truthyBool (requireManager check) \<and> \<not> isManager user)"

definition deniedBySpecificRole :: "User option \<Rightarrow> DynamicPermissionCheck \<Rightarrow> bool" where
  "deniedBySpecificRole user check =
     (case requireSpecificRole check of
        None \<Rightarrow> False
      | Some r \<Rightarrow> r \<noteq> [] \<and> r \<notin> set (userRoles user))"

definition deniedByAnyRole :: "User option \<Rightarrow> DynamicPermissionCheck \<Rightarrow> bool" where
  "deniedByAnyRole user check =
     (case requireAnyRole check of
        None \<Rightarrow> False
      | Some rs \<Rightarrow> \<not> list_ex (\<lambda>role. role \<in> set (userRoles user)) rs)"

definition hasGrant :: "User option \<Rightarrow> DynamicPermissionCheck \<Rightarrow> bool" where
  "hasGrant user check =
     list_ex (\<lambda>permission. Some (perm_name permission) = departmentSlug check
                         \<and> Some (perm_action permission) = action check)
       (userPermissions user)"

text \<open>
  The department-only branch; it is entered with a truthy \<^verbatim>\<open>departmentSlug\<close>, so the
  template \<^verbatim>\<open>`-${check.departmentSlug}`\<close> is read with a slug.
\<close>

definition inDepartment :: "User option \<Rightarrow> DynamicPermissionCheck \<Rightarrow> bool" where
  "inDepartment user check =
     (list_ex (\<lambda>dept. Some (dept_slug dept) = departmentSlug check) (userDepartments user)
      \<or> (case departmentSlug check of
            None \<Rightarrow> False
          | Some slug \<Rightarrow> list_ex (\<lambda>role. suffix (''-'' @ slug) role) (userRoles user)))"

definition checkDynamicPermission :: "User option \<Rightarrow> DynamicPermissionCheck \<Rightarrow> bool" where
  "checkDynamicPermission user check =
     (if user = None then False
      else if isAdmin user then True
      else if deniedByAdmin user check then False
      else if deniedByManager user check then False
      else if deniedBySpecificRole user check then False
      else if deniedByAnyRole user check then False
      else if truthyString (departmentSlug check) \<and> truthyString (action check)
        then hasGrant user check
      else if truthyString (departmentSlug check) \<and> \<not> truthyString (action check)
        then inDepartment user check
      else True)"

definition checkAnyPermission :: "User option \<Rightarrow> DynamicPermissionCheck list \<Rightarrow> bool" where
  "checkAnyPermission user checks = list_ex (checkDynamicPermission user) checks"

definition checkAllPermissions :: "User option \<Rightarrow> DynamicPermissionCheck list \<Rightarrow> bool" where
  "checkAllPermissions user checks = list_all (checkDynamicPermission user) checks"

text \<open>The object literal \<^verbatim>\<open>{ departmentSlug, action }\<close>: the other four fields are absent.\<close>

definition departmentAction :: "string \<Rightarrow> string \<Rightarrow> DynamicPermissionCheck" where
  "departmentAction slug act =
     \<lparr>departmentSlug = Some slug, action = Some act, requireAdmin = None,
      requireManager = None, requireSpecificRole = None, requireAnyRole = None\<rparr>"

text \<open>The object literal \<^verbatim>\<open>{ action }\<close>.\<close>

definition actionOnly :: "string \<Rightarrow> DynamicPermissionCheck" where
  "actionOnly act =
     \<lparr>departmentSlug = None, action = Some act, requireAdmin = None,
      requireManager = None, requireSpecificRole = None, requireAnyRole = None\<rparr>"

definition canReadDepartment :: "User option \<Rightarrow> string \<Rightarrow> bool" where
  "canReadDepartment user slug = checkDynamicPermission user (departmentAction slug ''read'')"

subsection \<open>Accessible departments\<close>

text \<open>
  The pattern \<^verbatim>\<open>/^(manager|user)-(.+)$/\<close> has no flags: \<^verbatim>\<open>^\<close> and \<^verbatim>\<open>$\<close> are the two ends
  of the string and \<^verbatim>\<open>.\<close> is any character but a line terminator. Of the four line
  terminators of the language, line feed and carriage return are 8-bit characters.
  \<open>roleMatch\<close> returns the second group, \<open>None\<close> when \<^verbatim>\<open>role.match\<close> returns \<^verbatim>\<open>null\<close>.
\<close>

definition lineTerminator :: "char \<Rightarrow> bool" where
  "lineTerminator c = (c = CHR 0x0A \<or> c = CHR 0x0D)"

definition dotPlus :: "string \<Rightarrow> bool" where
  "dotPlus s = (s \<noteq> [] \<and> list_all (\<lambda>c. \<not> lineTerminator c) s)"

definition roleMatch :: "string \<Rightarrow> string option" where
  "roleMatch role =
     (if prefix ''manager-'' role \<and> dotPlus (drop 8 role) then Some (drop 8 role)
      else if prefix ''user-'' role \<and> dotPlus (drop 5 role) then Some (drop 5 role)
      else None)"

text \<open>
  \<^verbatim>\<open>departments\<close> is a JavaScript \<^verbatim>\<open>Set\<close>, which iterates in insertion order:
  \<^verbatim>\<open>add\<close> appends a value that is not yet there.
\<close>

definition setAdd :: "string list \<Rightarrow> string \<Rightarrow> string list" where
  "setAdd s x = (if x \<in> set s then s else s @ [x])"

definition addRoleDepartment :: "string list \<Rightarrow> string \<Rightarrow> string list" where
  "addRoleDepartment s role = (case roleMatch role of None \<Rightarrow> s | Some slug \<Rightarrow> setAdd s slug)"

definition getAccessibleDepartments :: "User option \<Rightarrow> string list" where
  "getAccessibleDepartments user =
     (let fromDepartments = foldl (\<lambda>s dept. setAdd s (dept_slug dept)) [] (userDepartments user)
      in foldl addRoleDepartment fromDepartments (userRoles user))"

section \<open>src/hooks/usePermission.ts\<close>

definition getUserPermissions :: "User \<Rightarrow> Permission list" where
  "getUserPermissions u = (case permissions u of None \<Rightarrow> [] | Some ps \<Rightarrow> uniquePermissions ps)"

text \<open>
  \<^verbatim>\<open>checkPermission({ departmentSlug, action })\<close>. \<^verbatim>\<open>user.roles?.some(...)\<close> is
  \<^verbatim>\<open>undefined\<close>, hence falsy, when the user has no role list. \<^verbatim>\<open>hasRole\<close> is computed
  and not used.
\<close>

definition checkPermission :: "User option \<Rightarrow> string \<Rightarrow> string \<Rightarrow> bool" where
  "checkPermission user slug act =
     (case user of
        None \<Rightarrow> False
      | Some u \<Rightarrow>
          (let isAdminRole = (case roles u of
                                None \<Rightarrow> False
                              | Some rs \<Rightarrow> list_ex (\<lambda>role. role_name role = ''admin'') rs)
           in if isAdminRole then True
              else
                (let roleNames = (case roles u of None \<Rightarrow> [] | Some rs \<Rightarrow> map role_name rs);
                     requiredRoles = [''manager-'' @ slug, ''user-'' @ slug];
                     hasRole = list_ex (\<lambda>role. role \<in> set requiredRoles) roleNames;
                     perms = getUserPermissions u;
                     hasPermission = list_ex (\<lambda>permission. perm_name permission = slug
                                                          \<and> perm_action permission = act) perms
                 in hasPermission)))"

section \<open>JavaScript values\<close>

text \<open>
  The token payload is whatever \<^verbatim>\<open>JSON.parse\<close> returns and the guard types it
  \<^verbatim>\<open>any\<close>, so the model keeps JavaScript values: the JSON values and \<^verbatim>\<open>undefined\<close>,
  which a read of a missing property gives. A number is given by its exact value. An object is
  the list of its properties, read with \<open>map_of\<close>.
\<close>

datatype jsval =
    JUndefined
  | JNull
  | JBool bool
  | JNum rat
  | JStr string
  | JArr "jsval list"
  | JObj "(string \<times> jsval) list"

fun truthy :: "jsval \<Rightarrow> bool" where
  "truthy JUndefined = False"
| "truthy JNull = False"
| "truthy (JBool b) = b"
| "truthy (JNum n) = (n \<noteq> 0)"
| "truthy (JStr s) = (s \<noteq> [])"
| "truthy (JArr xs) = True"
| "truthy (JObj kvs) = True"

text \<open>
  \<^verbatim>\<open>v.key\<close> for the keys this code reads (\<^verbatim>\<open>exp\<close>, \<^verbatim>\<open>roles\<close>, \<^verbatim>\<open>zaloLinkStatus\<close>,
  \<^verbatim>\<open>name\<close>, \<^verbatim>\<open>access_token\<close>, \<^verbatim>\<open>refresh_token\<close>, \<^verbatim>\<open>sub\<close>, \<^verbatim>\<open>username\<close>,
  \<^verbatim>\<open>fullName\<close>, \<^verbatim>\<open>departments\<close>, none of them a property of a string, number,
  boolean or array): \<open>None\<close> is the \<^verbatim>\<open>TypeError\<close> thrown on \<^verbatim>\<open>null\<close> and
  \<^verbatim>\<open>undefined\<close>.
\<close>

fun getProp :: "jsval \<Rightarrow> string \<Rightarrow> jsval option" where
  "getProp JUndefined key = None"
| "getProp JNull key = None"
| "getProp (JObj kvs) key = Some (case map_of kvs key of None \<Rightarrow> JUndefined | Some v \<Rightarrow> v)"
| "getProp v key = Some JUndefined"

subsection \<open>Arithmetic on numbers\<close>

text \<open>
  A number of the language is a binary64 value: a \<open>JNum\<close> carries the exact rational
  value of one, and an arithmetic result is rounded to the nearest such value, ties to
  the even significand. \<open>Date.now()\<close> is an integer number of milliseconds, exact as
  long as it is below \<open>2 ^ 53\<close>, which every time value is.
\<close>

datatype double = Double rat | PlusInfinity | MinusInfinity

text \<open>The integer nearest to \<open>q\<close>, the even one of the two when \<open>q\<close> lies halfway.\<close>

definition roundHalfEven :: "rat \<Rightarrow> int" where
  "roundHalfEven q =
     (let f = \<lfloor>q\<rfloor>; d = q - of_int f
      in if d < 1 / 2 then f
         else if 1 / 2 < d then f + 1
         else if even f then f else f + 1)"

text \<open>
  The exponent of the unit in the last place of a magnitude \<open>a\<close>: the largest \<open>j\<close> from
  \<open>- 1074\<close> (the subnormal numbers) to \<open>971\<close> (the largest binade) with
  \<open>2 powi (j + 52) \<le> a\<close>, and \<open>- 1074\<close> when there is none. \<open>ulpExp n\<close> searches
  downwards from \<open>j = n - 1074\<close>.
\<close>

fun ulpExp :: "nat \<Rightarrow> rat \<Rightarrow> int" where
  "ulpExp 0 a = - 1074"
| "ulpExp (Suc n) a =
     (if 2 powi (int (Suc n) - 1022) \<le> a then int (Suc n) - 1074 else ulpExp n a)"

text \<open>
  The binary64 value of an exact result \<open>x\<close>: the magnitude is rounded to a multiple of
  its unit in the last place, and a rounded magnitude of \<open>2 ^ 1024\<close> or more is an
  infinity.
\<close>

definition roundDouble :: "rat \<Rightarrow> double" where
  "roundDouble x =
     (let a = \<bar>x\<bar>;
          u = 2 powi (ulpExp 2045 a);
          r = of_int (roundHalfEven (a / u)) * u
      in if 2 ^ 1024 \<le> r then (if x < 0 then MinusInfinity else PlusInfinity)
         else Double (if x < 0 then - r else r))"

text \<open>The comparison \<^verbatim>\<open><\<close> of two numbers.\<close>

fun doubleLess :: "double \<Rightarrow> double \<Rightarrow> bool" where
  "doubleLess (Double a) (Double b) = (a < b)"
| "doubleLess (Double a) PlusInfinity = True"
| "doubleLess MinusInfinity (Double b) = True"
| "doubleLess MinusInfinity PlusInfinity = True"
| "doubleLess a b = False"

section \<open>src/middleware.ts\<close>

subsection \<open>The navigation table\<close>

text \<open>
  \<^verbatim>\<open>navItems\<close> is imported from \<^verbatim>\<open>./lib/nav-items\<close>: the guard takes the table as a
  parameter. \<open>itemRoles\<close> is the optional \<^verbatim>\<open>roles\<close> of an item.
\<close>

record NavItem =
  title :: string
  url :: string
  itemRoles :: "string list option"

record NavGroup =
  groupTitle :: string
  items :: "NavItem list"

text \<open>
  \<^verbatim>\<open>userRoles\<close> holds what \<^verbatim>\<open>role.name || role\<close> gave, any value; \<^verbatim>\<open>includes\<close>
  finds a required role, a string, only as that string.
\<close>

definition hasRole :: "jsval list \<Rightarrow> string list \<Rightarrow> bool" where
  "hasRole guardRoles requiredRoles = list_ex (\<lambda>role. JStr role \<in> set guardRoles) requiredRoles"

text \<open>\<^verbatim>\<open>!item.roles || hasRole(userRoles, item.roles)\<close>: an array, even empty, is truthy.\<close>

definition itemAllowed :: "jsval list \<Rightarrow> NavItem \<Rightarrow> bool" where
  "itemAllowed guardRoles item =
     (case itemRoles item of None \<Rightarrow> True | Some rs \<Rightarrow> hasRole guardRoles rs)"

fun firstAllowedUrl :: "jsval list \<Rightarrow> NavItem list \<Rightarrow> string option" where
  "firstAllowedUrl guardRoles [] = None"
| "firstAllowedUrl guardRoles (item # rest) =
     (if itemAllowed guardRoles item then Some (url item) else firstAllowedUrl guardRoles rest)"

fun getFirstAccessibleUrl :: "NavGroup list \<Rightarrow> jsval list \<Rightarrow> string option" where
  "getFirstAccessibleUrl [] guardRoles = None"
| "getFirstAccessibleUrl (navGroup # groups) guardRoles =
     (case firstAllowedUrl guardRoles (items navGroup) of
        Some u \<Rightarrow> Some u
      | None \<Rightarrow> getFirstAccessibleUrl groups guardRoles)"

fun accessibleAmong :: "jsval list \<Rightarrow> string \<Rightarrow> NavItem list \<Rightarrow> bool" where
  "accessibleAmong guardRoles path [] = False"
| "accessibleAmong guardRoles path (item # rest) =
     (if url item = path \<and> itemAllowed guardRoles item then True
      else accessibleAmong guardRoles path rest)"

fun isAccessible :: "NavGroup list \<Rightarrow> jsval list \<Rightarrow> string \<Rightarrow> bool" where
  "isAccessible [] guardRoles path = False"
| "isAccessible (navGroup # groups) guardRoles path =
     (if accessibleAmong guardRoles path (items navGroup) then True
      else isAccessible groups guardRoles path)"

definition allUrls :: "NavGroup list \<Rightarrow> string list" where
  "allUrls nav = concat (map (\<lambda>g. map url (items g)) nav)"

subsection \<open>Decoding the token\<close>

text \<open>The three \<^verbatim>\<open>let\<close> variables of the guard; \<open>tokenRoles\<close> is its \<^verbatim>\<open>userRoles\<close>.\<close>

record TokenState =
  isValid :: bool
  tokenRoles :: "jsval list"
  zaloLinkStatus :: rat

definition initialState :: TokenState where
  "initialState = \<lparr>isValid = False, tokenRoles = [], zaloLinkStatus = 0\<rparr>"

text \<open>
  \<^verbatim>\<open>if (exp && typeof exp === 'number' && exp > 0) isValid = Date.now() < exp * 1000\<close>,
  with \<open>nowMs\<close> the milliseconds of \<^verbatim>\<open>Date.now()\<close> and the product rounded.
\<close>

definition readExp :: "int \<Rightarrow> jsval \<Rightarrow> TokenState \<Rightarrow> TokenState" where
  "readExp nowMs expClaim s =
     (case expClaim of
        JNum e \<Rightarrow>
          if e \<noteq> 0 \<and> 0 < e
          then s\<lparr>isValid := doubleLess (Double (of_int nowMs)) (roundDouble (e * 1000))\<rparr>
          else s
      | _ \<Rightarrow> s)"

text \<open>The callback \<^verbatim>\<open>(role: any) => role.name || role\<close>; \<open>None\<close> when it throws.\<close>

definition roleNameOf :: "jsval \<Rightarrow> jsval option" where
  "roleNameOf role =
     (case getProp role ''name'' of
        None \<Rightarrow> None
      | Some n \<Rightarrow> Some (if truthy n then n else role))"

fun mapRoles :: "jsval list \<Rightarrow> jsval list option" where
  "mapRoles [] = Some []"
| "mapRoles (role # rest) =
     (case roleNameOf role of
        None \<Rightarrow> None
      | Some n \<Rightarrow> (case mapRoles rest of None \<Rightarrow> None | Some ns \<Rightarrow> Some (n # ns)))"

text \<open>
  \<^verbatim>\<open>if (payload.roles && Array.isArray(payload.roles)) userRoles = payload.roles.map(...)\<close>;
  \<open>None\<close> when the callback throws.
\<close>

definition readRoles :: "jsval \<Rightarrow> TokenState \<Rightarrow> TokenState option" where
  "readRoles r s =
     (case r of
        JArr rs \<Rightarrow> (case mapRoles rs of None \<Rightarrow> None | Some ns \<Rightarrow> Some (s\<lparr>tokenRoles := ns\<rparr>))
      | _ \<Rightarrow> Some s)"

definition readLinkStatus :: "jsval \<Rightarrow> TokenState \<Rightarrow> TokenState" where
  "readLinkStatus z s = (case z of JNum n \<Rightarrow> s\<lparr>zaloLinkStatus := n\<rparr> | _ \<Rightarrow> s)"

text \<open>
  The body of the \<^verbatim>\<open>try\<close>, statement by statement. An exception leaves the variables
  as the statements before it set them: \<^verbatim>\<open>catch\<close> only logs.
\<close>

definition decodePayload :: "int \<Rightarrow> jsval \<Rightarrow> TokenState" where
  "decodePayload nowMs payload =
     (case getProp payload ''exp'' of
        None \<Rightarrow> initialState
      | Some expClaim \<Rightarrow>
          (let s1 = readExp nowMs expClaim initialState
           in case getProp payload ''roles'' of
                None \<Rightarrow> s1
              | Some r \<Rightarrow>
                  (case readRoles r s1 of
                     None \<Rightarrow> s1
                   | Some s2 \<Rightarrow>
                       (case getProp payload ''zaloLinkStatus'' of
                          None \<Rightarrow> s2
                        | Some z \<Rightarrow> readLinkStatus z s2))))"

text \<open>
  \<open>parsePayload\<close> stands for \<^verbatim>\<open>JSON.parse(base64UrlDecode(token.split('.')[1]))\<close>
  (\<^verbatim>\<open>base64UrlDecode\<close> is imported from \<^verbatim>\<open>./lib/auth\<close>), \<open>None\<close> when it throws.
  \<^verbatim>\<open>if (token)\<close> skips an absent and an empty cookie.
\<close>

definition decodeToken :: "(string \<Rightarrow> jsval option) \<Rightarrow> int \<Rightarrow> string option \<Rightarrow> TokenState" where
  "decodeToken parsePayload nowMs token =
     (case token of
        None \<Rightarrow> initialState
      | Some t \<Rightarrow>
          if t = [] then initialState
          else (case parsePayload t of
                  None \<Rightarrow> initialState
                | Some payload \<Rightarrow> decodePayload nowMs payload))"

subsection \<open>Requests, responses and the refresh call\<close>

record Request =
  pathname :: string
  href :: string
  accessToken :: "string option"
  refreshToken :: "string option"

text \<open>
  \<open>Redirect path callback\<close> is \<^verbatim>\<open>NextResponse.redirect(new URL(path, request.url))\<close>,
  \<open>callback\<close> the \<^verbatim>\<open>callbackUrl\<close> search parameter when one is set. The cookies of a
  response are the names and values it sets and the names it deletes.
\<close>

datatype Target = Next | Redirect string "string option"

record Response =
  target :: Target
  cookiesSet :: "(string \<times> jsval) list"
  cookiesDeleted :: "string list"

text \<open>
  What \<^verbatim>\<open>fetch(.../auth/refresh)\<close> does: it throws, or it gives a response with its
  \<^verbatim>\<open>ok\<close> flag and the value of \<^verbatim>\<open>json()\<close>, \<open>None\<close> when that throws.
\<close>

datatype FetchResult = FetchThrows | FetchResponse bool "jsval option"

record Env =
  navItems :: "NavGroup list"
  parsePayload :: "string \<Rightarrow> jsval option"
  now :: int
  fetchRefresh :: "string \<Rightarrow> FetchResult"

definition zaloLinkPath :: string where
  "zaloLinkPath = ''/dashboard/link-account''"

definition publicPaths :: "string list" where
  "publicPaths = [''/login'']"

definition continue :: Response where
  "continue = \<lparr>target = Next, cookiesSet = [], cookiesDeleted = []\<rparr>"

definition redirectTo :: "string \<Rightarrow> Response" where
  "redirectTo path = \<lparr>target = Redirect path None, cookiesSet = [], cookiesDeleted = []\<rparr>"

definition loginRedirect :: "Request \<Rightarrow> Response" where
  "loginRedirect request =
     \<lparr>target = Redirect ''/login''
                 (if prefix ''/login'' (pathname request) then None else Some (href request)),
      cookiesSet = [],
      cookiesDeleted = [''access_token'', ''refresh_token'']\<rparr>"

text \<open>
  The response built from the refresh data, \<open>None\<close> when \<^verbatim>\<open>data.access_token\<close> is falsy
  or reading it throws: the guard then goes on to the login redirect. Setting a cookie
  is taken not to throw.
\<close>

definition refreshedResponse :: "jsval \<Rightarrow> Response option" where
  "refreshedResponse data =
     (case getProp data ''access_token'' of
        None \<Rightarrow> None
      | Some tok \<Rightarrow>
          if truthy tok
          then Some \<lparr>target = Next,
                     cookiesSet = (''access_token'', tok) #
                       (case getProp data ''refresh_token'' of
                          None \<Rightarrow> []
                        | Some r \<Rightarrow> if truthy r then [(''refresh_token'', r)] else []),
                     cookiesDeleted = []\<rparr>
          else None)"

text \<open>
  The branch \<^verbatim>\<open>if (!isValid)\<close>. The second component lists the refresh tokens posted to
  \<^verbatim>\<open>/auth/refresh\<close>, in order.
\<close>

definition recoverSession :: "Env \<Rightarrow> Request \<Rightarrow> Response \<times> string list" where
  "recoverSession env request =
     (case refreshToken request of
        None \<Rightarrow> (loginRedirect request, [])
      | Some rt \<Rightarrow>
          if rt = [] then (loginRedirect request, [])
          else (case fetchRefresh env rt of
                  FetchResponse True (Some data) \<Rightarrow>
                    (case refreshedResponse data of
                       Some response \<Rightarrow> (response, [rt])
                     | None \<Rightarrow> (loginRedirect request, [rt]))
                | _ \<Rightarrow> (loginRedirect request, [rt])))"

text \<open>The last branch: the authorization check against the navigation table.\<close>

definition authorize :: "Env \<Rightarrow> TokenState \<Rightarrow> Request \<Rightarrow> Response" where
  "authorize env s request =
     (if pathname request \<in> set (allUrls (navItems env))
         \<and> \<not> isAccessible (navItems env) (tokenRoles s) (pathname request)
      then (case getFirstAccessibleUrl (navItems env) (tokenRoles s) of
              None \<Rightarrow> continue
            | Some firstUrl \<Rightarrow> if firstUrl \<noteq> [] then redirectTo firstUrl else continue)
      else continue)"

text \<open>
  The landing redirect: \<open>Some\<close> response when the branch returns, \<open>None\<close> when the guard
  goes on to the next statement.
\<close>

definition landingRedirect :: "Env \<Rightarrow> TokenState \<Rightarrow> Request \<Rightarrow> Response option" where
  "landingRedirect env s request =
     (if isValid s \<and> (pathname request = ''/'' \<or> pathname request = ''/login''
                      \<or> pathname request = ''/dashboard'')
      then (case getFirstAccessibleUrl (navItems env) (tokenRoles s) of
              None \<Rightarrow> None
            | Some firstUrl \<Rightarrow> if firstUrl \<noteq> [] then Some (redirectTo firstUrl) else None)
      else None)"

definition middleware :: "Env \<Rightarrow> Request \<Rightarrow> Response \<times> string list" where
  "middleware env request =
     (let s = decodeToken (parsePayload env) (now env) (accessToken request)
      in if isValid s \<and> zaloLinkStatus s = 2
         then (if pathname request \<noteq> zaloLinkPath then (redirectTo zaloLinkPath, [])
               else (continue, []))
         else if isValid s \<and> pathname request = zaloLinkPath then (continue, [])
         else (case landingRedirect env s request of
                 Some response \<Rightarrow> (response, [])
               | None \<Rightarrow>
                   if pathname request \<in> set publicPaths then (continue, [])
                   else if \<not> isValid s then recoverSession env request
                   else (authorize env s request, [])))"

section \<open>src/lib/auth.ts\<close>

text \<open>
  \<^verbatim>\<open>payload.exp && payload.exp < Date.now() / 1000\<close>. A truthy \<^verbatim>\<open>exp\<close> that is not a
  number is compared after the conversion of the language, the parameter \<open>toNumber\<close>
  (\<open>None\<close> for \<^verbatim>\<open>NaN\<close>, which compares false). The quotient is rounded.
\<close>

definition expired :: "(jsval \<Rightarrow> rat option) \<Rightarrow> int \<Rightarrow> jsval \<Rightarrow> bool" where
  "expired toNumber nowMs expClaim =
     (truthy expClaim \<and>
      (case expClaim of
         JNum e \<Rightarrow> doubleLess (Double e) (roundDouble (of_int nowMs / 1000))
       | _ \<Rightarrow> (case toNumber expClaim of
                 None \<Rightarrow> False
               | Some e \<Rightarrow> doubleLess (Double e) (roundDouble (of_int nowMs / 1000)))))"

text \<open>
  \<^verbatim>\<open>payload.key\<close> once \<^verbatim>\<open>payload.exp\<close> has been read without an exception, so that the
  payload is neither \<^verbatim>\<open>null\<close> nor \<^verbatim>\<open>undefined\<close>; and \<^verbatim>\<open>v || d\<close>.
\<close>

definition propOf :: "jsval \<Rightarrow> string \<Rightarrow> jsval" where
  "propOf payload key = (case getProp payload key of None \<Rightarrow> JUndefined | Some v \<Rightarrow> v)"

definition orElse :: "jsval \<Rightarrow> jsval \<Rightarrow> jsval" where
  "orElse v d = (if truthy v then v else d)"

record TokenUser =
  userId :: jsval
  username :: jsval
  fullName :: jsval
  status :: string
  isBlock :: bool
  userRoleList :: jsval
  userDepartmentList :: jsval

text \<open>
  \<^verbatim>\<open>getUserFromToken\<close>, with \<open>parse\<close> for \<^verbatim>\<open>JSON.parse(atob(token.split(".")[1]))\<close>,
  \<open>None\<close> when it throws; the result \<open>None\<close> is \<^verbatim>\<open>null\<close>.
\<close>

definition getUserFromToken ::
    "(string \<Rightarrow> jsval option) \<Rightarrow> (jsval \<Rightarrow> rat option) \<Rightarrow> int \<Rightarrow> string \<Rightarrow> TokenUser option" where
  "getUserFromToken parse toNumber nowMs token =
     (case parse token of
        None \<Rightarrow> None
      | Some payload \<Rightarrow>
          (case getProp payload ''exp'' of
             None \<Rightarrow> None
           | Some expClaim \<Rightarrow>
               if expired toNumber nowMs expClaim then None
               else Some \<lparr>userId = propOf payload ''sub'',
                          username = orElse (propOf payload ''username'') (JStr []),
                          fullName = orElse (propOf payload ''fullName'') (JStr []),
                          status = ''active'',
                          isBlock = False,
                          userRoleList = orElse (propOf payload ''roles'') (JArr []),
                          userDepartmentList =
                            orElse (propOf payload ''departments'') (JArr [])\<rparr>))"

section \<open>Example inputs\<close>

text \<open>Users: one without any grant, an administrator, a department member, a clerk.\<close>

definition exNobody :: User where
  "exNobody = \<lparr>permissions = Some [], roles = Some [], departments = Some []\<rparr>"

definition exAdmin :: User where
  "exAdmin = \<lparr>permissions = None, roles = Some [\<lparr>role_id = 1, role_name = ''admin''\<rparr>],
              departments = None\<rparr>"

definition exMember :: User where
  "exMember = \<lparr>permissions = Some [],
               roles = Some [\<lparr>role_id = 7, role_name = ''user-cong-no''\<rparr>],
               departments = Some []\<rparr>"

definition exClerk :: User where
  "exClerk = \<lparr>permissions = Some [\<lparr>perm_id = 1, perm_name = ''cong-no'', perm_action = ''read''\<rparr>],
              roles = Some [\<lparr>role_id = 7, role_name = ''user-cong-no''\<rparr>,
                            \<lparr>role_id = 8, role_name = ''manager-kho''\<rparr>],
              departments = Some [\<lparr>dept_id = 3, dept_slug = ''kho'', dept_name = ''Kho''\<rparr>]\<rparr>"

text \<open>A permission list whose third entry repeats the key of the first.\<close>

definition exDup :: "Permission list" where
  "exDup = [\<lparr>perm_id = 1, perm_name = ''cong-no'', perm_action = ''read''\<rparr>,
            \<lparr>perm_id = 2, perm_name = ''kho'', perm_action = ''read''\<rparr>,
            \<lparr>perm_id = 3, perm_name = ''cong-no'', perm_action = ''read''\<rparr>]"

text \<open>A navigation table: one item open to every session, one for administrators.\<close>

definition exNav :: "NavGroup list" where
  "exNav = [\<lparr>groupTitle = ''Thong ke'',
             items = [\<lparr>title = ''Cong no'', url = ''/statistic/debts'', itemRoles = None\<rparr>,
                      \<lparr>title = ''Quan tri'', url = ''/admin'', itemRoles = Some [''admin'']\<rparr>]\<rparr>]"

text \<open>
  Token payloads. The clock of the examples reads 5000 milliseconds, so \<^verbatim>\<open>exp: 1\<close> is
  in the past and \<^verbatim>\<open>exp: 10\<close> in the future.
\<close>

definition exMemberRoles :: jsval where
  "exMemberRoles = JArr [JObj [(''name'', JStr ''user-cong-no'')]]"

definition exExpiredPayload :: jsval where
  "exExpiredPayload = JObj [(''exp'', JNum 1), (''roles'', exMemberRoles)]"

definition exNoExpPayload :: jsval where
  "exNoExpPayload = JObj [(''sub'', JNum 7), (''roles'', exMemberRoles)]"

definition exMemberPayload :: jsval where
  "exMemberPayload = JObj [(''exp'', JNum 10), (''roles'', exMemberRoles)]"

definition exLinkErrorPayload :: jsval where
  "exLinkErrorPayload =
     JObj [(''exp'', JNum 10), (''roles'', exMemberRoles), (''zaloLinkStatus'', JNum 2)]"

definition exNullRolePayload :: jsval where
  "exNullRolePayload =
     JObj [(''exp'', JNum 10), (''roles'', JArr [JNull]), (''zaloLinkStatus'', JNum 2)]"

definition exParse :: "jsval \<Rightarrow> string \<Rightarrow> jsval option" where
  "exParse payload token = Some payload"

definition exFetch :: "string \<Rightarrow> FetchResult" where
  "exFetch rt = FetchResponse True (Some (JObj [(''access_token'', JStr ''fresh'')]))"

definition exEnv :: "jsval \<Rightarrow> Env" where
  "exEnv payload =
     \<lparr>navItems = exNav, parsePayload = exParse payload, now = 5000, fetchRefresh = exFetch\<rparr>"

definition exRequest :: "string \<Rightarrow> Request" where
  "exRequest path = \<lparr>pathname = path, href = ''https://host'' @ path,
                      accessToken = Some ''h.p.s'', refreshToken = Some ''r''\<rparr>"

lemmas clause_defs = deniedByAdmin_def deniedByManager_def deniedBySpecificRole_def
  deniedByAnyRole_def truthyBool_def truthyString_def

lemmas ex_defs = exNav_def exMemberRoles_def exExpiredPayload_def exNoExpPayload_def
  exMemberPayload_def exLinkErrorPayload_def exNullRolePayload_def exParse_def exFetch_def
  exEnv_def exRequest_def

lemmas guard_defs = middleware_def decodeToken_def decodePayload_def readExp_def readRoles_def
  readLinkStatus_def roleNameOf_def initialState_def landingRedirect_def authorize_def
  recoverSession_def refreshedResponse_def loginRedirect_def publicPaths_def zaloLinkPath_def
  allUrls_def itemAllowed_def hasRole_def Let_def

section \<open>The permission snapshot: deduplication\<close>

lemma uniqueMapStep_snoc:
  "foldl uniqueMapStep m (ps @ [p]) = uniqueMapStep (foldl uniqueMapStep m ps) p"
  by simp

lemma uniqueMapStep_key_set:
  "set (map fst (uniqueMapStep m p)) = insert (permissionKey p) (set (map fst m))"
proof (cases "map_of m (permissionKey p) = None")
  case True
  then show ?thesis by (simp add: uniqueMapStep_def Let_def)
next
  case False
  then have "permissionKey p \<in> fst ` set m" by (simp add: map_of_eq_None_iff)
  then show ?thesis using False by (auto simp add: uniqueMapStep_def Let_def)
qed

lemma uniqueMap_key_set:
  "set (map fst (foldl uniqueMapStep [] ps)) = permissionKey ` set ps"
proof (induction ps rule: rev_induct)
  case Nil
  show ?case by simp
next
  case (snoc p ps)
  have "set (map fst (foldl uniqueMapStep [] (ps @ [p])))
        = insert (permissionKey p) (set (map fst (foldl uniqueMapStep [] ps)))"
    unfolding uniqueMapStep_snoc by (rule uniqueMapStep_key_set)
  then show ?case using snoc by simp
qed

lemma uniqueMap_has:
  "map_of (foldl uniqueMapStep [] ps) k = None \<longleftrightarrow> k \<notin> permissionKey ` set ps"
  using uniqueMap_key_set [of ps] by (simp add: map_of_eq_None_iff)

text \<open>The loop, read from its last iteration: a permission is kept when its key is new.\<close>

lemma uniquePermissions_snoc:
  "uniquePermissions (ps @ [p]) =
     (if permissionKey p \<in> permissionKey ` set ps then uniquePermissions ps
      else uniquePermissions ps @ [p])"
  by (simp add: uniquePermissions_def uniqueMapStep_def Let_def uniqueMap_has)

lemma uniquePermissions_Nil: "uniquePermissions [] = []"
  by (simp add: uniquePermissions_def)

lemma uniquePermissions_keys:
  "map permissionKey (uniquePermissions ps) = rev (remdups (rev (map permissionKey ps)))"
  by (induction ps rule: rev_induct) (simp_all add: uniquePermissions_snoc uniquePermissions_Nil)

lemma find_snoc:
  "find P (xs @ [x]) =
     (case find P xs of None \<Rightarrow> (if P x then Some x else None) | Some y \<Rightarrow> Some y)"
  by (induction xs) simp_all

lemma uniquePermissions_first:
  "p \<in> set (uniquePermissions ps) \<Longrightarrow> find (\<lambda>q. permissionKey q = permissionKey p) ps = Some p"
proof (induction ps rule: rev_induct)
  case Nil
  then show ?case by (simp add: uniquePermissions_Nil)
next
  case (snoc x xs)
  show ?case
  proof (cases "p \<in> set (uniquePermissions xs)")
    case True
    then show ?thesis using snoc.IH by (simp add: find_snoc)
  next
    case False
    then have px: "p = x" and new: "permissionKey x \<notin> permissionKey ` set xs"
      using snoc.prems by (auto simp add: uniquePermissions_snoc split: if_splits)
    have "\<not> (\<exists>q. q \<in> set xs \<and> permissionKey q = permissionKey x)"
      using new by (metis imageI)
    then have "find (\<lambda>q. permissionKey q = permissionKey x) xs = None"
      by (simp add: find_None_iff)
    then show ?thesis using px by (simp add: find_snoc)
  qed
qed

text \<open>
  C6. The snapshot of a permission list holds one entry for each distinct key
  \<^verbatim>\<open>name:action\<close>: its keys are the keys of the list, each once, in the order in which
  the list first shows them (\<open>remdups\<close> keeps the last occurrence, so the reversals make
  it keep the first), and the entry kept for a key is the first entry of the list with
  that key, whatever its other fields.
\<close>

theorem permissions_deduplicated:
  assumes "permissions u = Some ps"
  shows "map permissionKey (userPermissions (Some u)) = rev (remdups (rev (map permissionKey ps)))
       \<and> distinct (map permissionKey (userPermissions (Some u)))
       \<and> set (map permissionKey (userPermissions (Some u))) = set (map permissionKey ps)
       \<and> (\<forall>p \<in> set (userPermissions (Some u)).
             find (\<lambda>q. permissionKey q = permissionKey p) ps = Some p)"
proof -
  have e: "userPermissions (Some u) = uniquePermissions ps"
    using assms by (simp add: userPermissions_def)
  have k: "map permissionKey (uniquePermissions ps) = rev (remdups (rev (map permissionKey ps)))"
    by (rule uniquePermissions_keys)
  have d: "distinct (map permissionKey (uniquePermissions ps))"
    unfolding k by simp
  have s: "set (map permissionKey (uniquePermissions ps)) = set (map permissionKey ps)"
    unfolding k by simp
  show ?thesis unfolding e using k d s uniquePermissions_first by blast
qed

theorem permissions_deduplicated_witness:
  "permissions \<lparr>permissions = Some exDup, roles = None, departments = None\<rparr> = Some exDup
   \<and> userPermissions (Some \<lparr>permissions = Some exDup, roles = None, departments = None\<rparr>)
     = [\<lparr>perm_id = 1, perm_name = ''cong-no'', perm_action = ''read''\<rparr>,
        \<lparr>perm_id = 2, perm_name = ''kho'', perm_action = ''read''\<rparr>]
   \<and> map permissionKey
        (userPermissions (Some \<lparr>permissions = Some exDup, roles = None, departments = None\<rparr>))
     = [''cong-no:read'', ''kho:read'']"
proof -
  let ?u = "\<lparr>permissions = Some exDup, roles = None, departments = None\<rparr>"
  have h: "permissions ?u = Some exDup" by simp
  have v: "userPermissions (Some ?u)
     = [\<lparr>perm_id = 1, perm_name = ''cong-no'', perm_action = ''read''\<rparr>,
        \<lparr>perm_id = 2, perm_name = ''kho'', perm_action = ''read''\<rparr>]"
    by (simp add: userPermissions_def uniquePermissions_def uniqueMapStep_def exDup_def
        permissionKey_def)
  have "map permissionKey (userPermissions (Some ?u))
      = rev (remdups (rev (map permissionKey exDup)))"
    using permissions_deduplicated [OF h] by simp
  then have "map permissionKey (userPermissions (Some ?u)) = [''cong-no:read'', ''kho:read'']"
    by (simp add: exDup_def permissionKey_def)
  then show ?thesis using h v by simp
qed

section \<open>The evaluator\<close>

text \<open>
  C2. For an authenticated user whose role names include \<^verbatim>\<open>admin\<close>, the evaluator
  returns true on every check, whatever its six fields hold.
\<close>

theorem admin_bypass:
  "user \<noteq> None \<Longrightarrow> ''admin'' \<in> set (userRoles user) \<Longrightarrow> checkDynamicPermission user check = True"
  by (simp add: checkDynamicPermission_def isAdmin_def)

theorem admin_bypass_witness:
  "Some exAdmin \<noteq> None \<and> ''admin'' \<in> set (userRoles (Some exAdmin))
   \<and> checkDynamicPermission (Some exAdmin)
        \<lparr>departmentSlug = Some ''cong-no'', action = Some ''delete'', requireAdmin = None,
         requireManager = Some True, requireSpecificRole = Some ''manager-cong-no'',
         requireAnyRole = Some []\<rparr> = True"
proof -
  have a: "Some exAdmin \<noteq> None" by simp
  have b: "''admin'' \<in> set (userRoles (Some exAdmin))" by (simp add: userRoles_def exAdmin_def)
  show ?thesis using a b admin_bypass [OF a b] by simp
qed

text \<open>
  C10. For an authenticated user, administrator or not, a check that sets only
  \<^verbatim>\<open>action\<close> is allowed, whatever the action and the permissions of the user.
\<close>

theorem action_only_allowed:
  "checkDynamicPermission (Some u) (actionOnly a) = True"
  by (simp add: checkDynamicPermission_def actionOnly_def clause_defs)

theorem action_only_allowed_witness:
  "checkDynamicPermission (Some exNobody) (actionOnly ''delete'') = True"
  using action_only_allowed [of exNobody "''delete''"] by simp

text \<open>
  C1, amended. For an authenticated user and a check that sets \<^verbatim>\<open>departmentSlug\<close> and
  \<^verbatim>\<open>action\<close> to non-empty strings and has no role field, the evaluator returns true
  exactly when the deduplicated permissions hold an entry with that name and that action,
  or the role names include \<^verbatim>\<open>admin\<close>.
\<close>

theorem department_action_grant:
  assumes "user \<noteq> None" "d \<noteq> []" "a \<noteq> []"
  shows "checkDynamicPermission user (departmentAction d a)
       = ((\<exists>p \<in> set (userPermissions user). perm_name p = d \<and> perm_action p = a)
          \<or> ''admin'' \<in> set (userRoles user))"
  using assms
  by (auto simp add: checkDynamicPermission_def departmentAction_def clause_defs hasGrant_def
      isAdmin_def list_ex_iff)

theorem department_action_grant_witness:
  "Some exClerk \<noteq> None \<and> ''cong-no'' \<noteq> [] \<and> ''read'' \<noteq> []
   \<and> checkDynamicPermission (Some exClerk) (departmentAction ''cong-no'' ''read'') = True"
proof -
  have h: "Some exClerk \<noteq> None" "''cong-no'' \<noteq> []" "''read'' \<noteq> []" by simp_all
  have p: "userPermissions (Some exClerk)
         = [\<lparr>perm_id = 1, perm_name = ''cong-no'', perm_action = ''read''\<rparr>]"
    by (simp add: userPermissions_def uniquePermissions_def uniqueMapStep_def exClerk_def)
  show ?thesis using department_action_grant [OF h] p by simp
qed

text \<open>
  The empty string is a string, and falsy: with \<^verbatim>\<open>departmentSlug: ""\<close> neither
  department branch is taken and the check is allowed, for a user without any permission
  and without any role.
\<close>

theorem empty_slug_counterexample:
  "checkDynamicPermission (Some exNobody) (departmentAction [] ''read'') = True
   \<and> userPermissions (Some exNobody) = [] \<and> userRoles (Some exNobody) = []"
  by (simp add: checkDynamicPermission_def departmentAction_def clause_defs isAdmin_def
      userPermissions_def userRoles_def exNobody_def uniquePermissions_def)

section \<open>The legacy evaluator\<close>

lemma isAdminRole_eq:
  "(case roles u of None \<Rightarrow> False | Some rs \<Rightarrow> list_ex (\<lambda>role. role_name role = ''admin'') rs)
   = isAdmin (Some u)"
  by (force simp add: isAdmin_def userRoles_def list_ex_iff image_iff split: option.splits)

text \<open>
  C9, amended. For every user and every pair of a non-empty \<^verbatim>\<open>departmentSlug\<close> and a
  non-empty \<^verbatim>\<open>action\<close>, the legacy \<^verbatim>\<open>checkPermission\<close> and \<^verbatim>\<open>checkDynamicPermission\<close>
  return the same boolean: false for an absent user, true for an administrator, and
  otherwise true exactly when the deduplicated permissions hold an entry with that name
  and that action. The role list that \<^verbatim>\<open>checkPermission\<close> computes does not enter its
  result.
\<close>

theorem legacy_equivalence:
  assumes "d \<noteq> []" "a \<noteq> []"
  shows "checkPermission user d a = checkDynamicPermission user (departmentAction d a)
       \<and> checkPermission user d a
         = (user \<noteq> None \<and> (isAdmin user
              \<or> (\<exists>p \<in> set (userPermissions user). perm_name p = d \<and> perm_action p = a)))"
proof (cases user)
  case None
  then show ?thesis by (simp add: checkPermission_def checkDynamicPermission_def)
next
  case (Some u)
  have l: "checkPermission user d a
     = (isAdmin user \<or> (\<exists>p \<in> set (userPermissions user). perm_name p = d \<and> perm_action p = a))"
    using Some
    by (auto simp add: checkPermission_def isAdminRole_eq Let_def getUserPermissions_def
        userPermissions_def list_ex_iff)
  have r: "checkDynamicPermission user (departmentAction d a)
     = (isAdmin user \<or> (\<exists>p \<in> set (userPermissions user). perm_name p = d \<and> perm_action p = a))"
    using Some assms
    by (auto simp add: checkDynamicPermission_def departmentAction_def clause_defs hasGrant_def
        list_ex_iff)
  show ?thesis using l r Some by simp
qed

theorem legacy_equivalence_witness:
  "''cong-no'' \<noteq> [] \<and> ''read'' \<noteq> []
   \<and> checkPermission (Some exMember) ''cong-no'' ''read'' = False
   \<and> checkDynamicPermission (Some exMember) (departmentAction ''cong-no'' ''read'') = False"
proof -
  have h: "''cong-no'' \<noteq> []" "''read'' \<noteq> []" by simp_all
  have p: "userPermissions (Some exMember) = []"
    by (simp add: userPermissions_def exMember_def uniquePermissions_def)
  have r: "\<not> isAdmin (Some exMember)"
    by (simp add: isAdmin_def userRoles_def exMember_def)
  show ?thesis using legacy_equivalence [OF h, of "Some exMember"] p r by auto
qed

text \<open>
  With the empty action the two differ: \<^verbatim>\<open>checkPermission\<close> looks for a permission and
  finds none, \<^verbatim>\<open>checkDynamicPermission\<close> takes the department-only branch, where the
  role \<^verbatim>\<open>user-cong-no\<close> ends in \<^verbatim>\<open>-cong-no\<close>.
\<close>

theorem legacy_equivalence_counterexample:
  "checkPermission (Some exMember) ''cong-no'' [] = False
   \<and> checkDynamicPermission (Some exMember) (departmentAction ''cong-no'' []) = True"
  by (simp add: checkPermission_def checkDynamicPermission_def departmentAction_def clause_defs
      isAdmin_def userPermissions_def userRoles_def exMember_def uniquePermissions_def
      getUserPermissions_def inDepartment_def userDepartments_def suffix_to_prefix)

section \<open>Accessible departments\<close>

text \<open>What the pattern matches, and what its second group is.\<close>

lemma roleMatch_iff:
  "roleMatch role = Some s \<longleftrightarrow>
     (role = ''manager-'' @ s \<or> role = ''user-'' @ s) \<and> s \<noteq> []
     \<and> (\<forall>c \<in> set s. \<not> lineTerminator c)"
  by (auto simp add: roleMatch_def dotPlus_def list_all_iff prefix_def split: if_splits)

lemma setAdd_set: "set (setAdd s x) = insert x (set s)"
  by (auto simp add: setAdd_def)

lemma setAdd_distinct: "distinct s \<Longrightarrow> distinct (setAdd s x)"
  by (simp add: setAdd_def)

lemma fold_departments:
  "set (foldl (\<lambda>s dept. setAdd s (dept_slug dept)) s0 ds) = set s0 \<union> dept_slug ` set ds"
  "distinct s0 \<Longrightarrow> distinct (foldl (\<lambda>s dept. setAdd s (dept_slug dept)) s0 ds)"
  by (induction ds arbitrary: s0) (auto simp add: setAdd_set setAdd_distinct)

lemma addRoleDepartment_set:
  "set (addRoleDepartment s role) = set s \<union> {slug. roleMatch role = Some slug}"
  by (auto simp add: addRoleDepartment_def setAdd_set split: option.splits)

lemma addRoleDepartment_distinct: "distinct s \<Longrightarrow> distinct (addRoleDepartment s role)"
  by (simp add: addRoleDepartment_def setAdd_distinct split: option.splits)

lemma fold_roles:
  "set (foldl addRoleDepartment s0 rs)
   = set s0 \<union> {slug. \<exists>role \<in> set rs. roleMatch role = Some slug}"
  "distinct s0 \<Longrightarrow> distinct (foldl addRoleDepartment s0 rs)"
  by (induction rs arbitrary: s0) (auto simp add: addRoleDepartment_set addRoleDepartment_distinct)

text \<open>
  C7. For every user, \<^verbatim>\<open>getAccessibleDepartments()\<close> returns a list without duplicates
  whose elements are exactly the slugs of the user's departments together with the second
  groups of the pattern \<^verbatim>\<open>^(manager|user)-(.+)$\<close> on the user's role names.
\<close>

theorem accessible_departments_union:
  "distinct (getAccessibleDepartments user)
   \<and> set (getAccessibleDepartments user)
     = dept_slug ` set (userDepartments user)
       \<union> {slug. \<exists>role \<in> set (userRoles user). roleMatch role = Some slug}"
  by (simp add: getAccessibleDepartments_def Let_def fold_roles fold_departments)

theorem accessible_departments_union_witness:
  "getAccessibleDepartments (Some exClerk) = [''kho'', ''cong-no'']
   \<and> distinct (getAccessibleDepartments (Some exClerk))
   \<and> set (getAccessibleDepartments (Some exClerk))
     = dept_slug ` set (userDepartments (Some exClerk))
       \<union> {slug. \<exists>role \<in> set (userRoles (Some exClerk)). roleMatch role = Some slug}"
proof -
  have v: "getAccessibleDepartments (Some exClerk) = [''kho'', ''cong-no'']"
    by (simp add: getAccessibleDepartments_def userDepartments_def userRoles_def exClerk_def
        setAdd_def addRoleDepartment_def roleMatch_def dotPlus_def lineTerminator_def)
  show ?thesis using accessible_departments_union [of "Some exClerk"] v by simp
qed

section \<open>Rounding\<close>

lemma roundHalfEven_of_int: "roundHalfEven (of_int n) = n"
  by (simp add: roundHalfEven_def)

lemma roundHalfEven_le: "q \<le> of_int n \<Longrightarrow> roundHalfEven q \<le> n"
proof -
  assume h: "q \<le> of_int n"
  have c: "roundHalfEven q \<le> \<lceil>q\<rceil>"
    unfolding roundHalfEven_def Let_def by (auto simp add: ceiling_altdef)
  have "\<lceil>q\<rceil> \<le> n" using h by (simp add: ceiling_le_iff)
  then show ?thesis using c by linarith
qed

text \<open>Below \<open>2 ^ 53\<close> the unit in the last place is at most 1.\<close>

lemma ulpExp_le_0: "a < 2 ^ 53 \<Longrightarrow> ulpExp n a \<le> 0"
proof (induction n)
  case 0
  show ?case by simp
next
  case (Suc n)
  show ?case
  proof (cases "2 powi (int (Suc n) - 1022) \<le> a")
    case True
    then have "(2::rat) powi (int (Suc n) - 1022) < 2 powi 53" using Suc.prems by simp
    then have "int (Suc n) - 1022 < 53"
      by (rule power_int_le_imp_less_exp [rotated]) simp_all
    then show ?thesis using True by simp
  next
    case False
    then show ?thesis using Suc by simp
  qed
qed

text \<open>The search finds the exponent of the binade of \<open>a\<close>.\<close>

lemma ulpExp_unique:
  "2 powi (j + 52) \<le> a \<Longrightarrow> a < 2 powi (j + 53) \<Longrightarrow> - 1074 \<le> j \<Longrightarrow> j \<le> int n - 1074
   \<Longrightarrow> ulpExp n a = j"
proof (induction n)
  case 0
  then show ?case by simp
next
  case (Suc n)
  show ?case
  proof (cases "2 powi (int (Suc n) - 1022) \<le> a")
    case True
    then have "(2::rat) powi (int (Suc n) - 1022) < 2 powi (j + 53)" using Suc.prems(2) by simp
    then have "\<not> (j + 53 \<le> int (Suc n) - 1022)"
    proof -
      assume lt: "(2::rat) powi (int (Suc n) - 1022) < 2 powi (j + 53)"
      show ?thesis
      proof
        assume "j + 53 \<le> int (Suc n) - 1022"
        then have "(2::rat) powi (j + 53) \<le> 2 powi (int (Suc n) - 1022)"
          by (rule power_int_increasing) simp
        then show False using lt by simp
      qed
    qed
    then show ?thesis using True Suc.prems(4) by simp
  next
    case False
    have "j + 52 \<noteq> int (Suc n) - 1022"
    proof
      assume "j + 52 = int (Suc n) - 1022"
      then have "(2::rat) powi (int (Suc n) - 1022) = 2 powi (j + 52)" by (rule arg_cong [OF sym])
      then show False using False Suc.prems(1) by simp
    qed
    then have "j \<le> int n - 1074" using Suc.prems(4) by simp
    then show ?thesis using False Suc by simp
  qed
qed

lemma ulp_inverse:
  assumes "j \<le> 0"
  shows "(2::rat) powi j * 2 ^ nat (- j) = 1"
proof -
  have "(2::rat) powi j = inverse 2 ^ nat (- j)"
  proof (cases "j = 0")
    case True
    then show ?thesis by simp
  next
    case False
    then show ?thesis using assms by (simp add: power_int_def)
  qed
  then show ?thesis by (simp flip: power_mult_distrib)
qed

text \<open>Rounding does not cross an integer below \<open>2 ^ 53\<close>, and leaves such an integer as it is.\<close>

lemma roundDouble_le_int:
  assumes "0 \<le> x" and "x \<le> of_int n" and "n < 2 ^ 53"
  shows "\<exists>d. roundDouble x = Double d \<and> d \<le> of_int n"
proof -
  let ?j = "ulpExp 2045 x"
  let ?u = "(2::rat) powi ?j"
  let ?k = "(2::rat) ^ nat (- ?j)"
  have nlt: "(of_int n :: rat) < 2 ^ 53"
  proof -
    have "(of_int n :: rat) < of_int (2 ^ 53)" using assms(3) by (simp only: of_int_less_iff)
    then show ?thesis by simp
  qed
  have xlt: "x < 2 ^ 53" using nlt assms(2) by linarith
  have j: "?j \<le> 0" using xlt by (rule ulpExp_le_0)
  have uk: "?u * ?k = 1" using j by (rule ulp_inverse)
  have upos: "0 < ?u" by (simp add: power_int_def)
  have div: "x / ?u = x * ?k" using uk upos by (simp add: field_simps)
  have nk: "of_int n * ?k = (of_int (n * 2 ^ nat (- ?j)) :: rat)" by simp
  have "x * ?k \<le> of_int n * ?k" using assms(2) by (simp add: mult_right_mono)
  then have "roundHalfEven (x / ?u) \<le> n * 2 ^ nat (- ?j)"
    unfolding div nk by (rule roundHalfEven_le)
  then have "(of_int (roundHalfEven (x / ?u)) :: rat) \<le> of_int (n * 2 ^ nat (- ?j))"
    by (simp only: of_int_le_iff)
  then have "of_int (roundHalfEven (x / ?u)) * ?u \<le> of_int n * ?k * ?u"
    using upos by (simp add: mult_right_mono)
  then have le: "of_int (roundHalfEven (x / ?u)) * ?u \<le> of_int n"
    using uk by (simp add: mult.assoc mult.commute [of ?k ?u])
  have "(2::rat) ^ 53 < 2 ^ 1024" by (rule power_strict_increasing) simp_all
  then have "(of_int n :: rat) < 2 ^ 1024" using nlt by linarith
  then have "\<not> (2 ^ 1024 \<le> of_int (roundHalfEven (x / ?u)) * ?u)" using le by linarith
  then show ?thesis using le assms(1) by (simp add: roundDouble_def Let_def)
qed

lemma roundDouble_of_int:
  assumes "0 \<le> n" and "n < 2 ^ 53"
  shows "roundDouble (of_int n) = Double (of_int n)"
proof -
  let ?x = "of_int n :: rat"
  let ?j = "ulpExp 2045 ?x"
  let ?u = "(2::rat) powi ?j"
  let ?k = "(2::rat) ^ nat (- ?j)"
  have xlt: "?x < 2 ^ 53"
  proof -
    have "?x < of_int (2 ^ 53)" using assms(2) by (simp only: of_int_less_iff)
    then show ?thesis by simp
  qed
  have j: "?j \<le> 0" using xlt by (rule ulpExp_le_0)
  have uk: "?u * ?k = 1" using j by (rule ulp_inverse)
  have upos: "0 < ?u" by (simp add: power_int_def)
  have div: "?x / ?u = of_int (n * 2 ^ nat (- ?j))" using uk upos by (simp add: field_simps)
  have r: "of_int (roundHalfEven (?x / ?u)) * ?u = ?x"
    unfolding div roundHalfEven_of_int using uk by (simp add: mult.assoc mult.commute [of ?k ?u])
  have "(2::rat) ^ 53 < 2 ^ 1024" by (rule power_strict_increasing) simp_all
  then have "\<not> (2 ^ 1024 \<le> ?x)" using xlt by linarith
  then show ?thesis using assms(1) unfolding roundDouble_def Let_def
    by (simp add: r)
qed

text \<open>The products of the example payloads: \<^verbatim>\<open>1 * 1000\<close> and \<^verbatim>\<open>10 * 1000\<close>.\<close>

lemma roundDouble_1000: "roundDouble 1000 = Double 1000"
  using roundDouble_of_int [of 1000] by simp

lemma roundDouble_10000: "roundDouble 10000 = Double 10000"
  using roundDouble_of_int [of 10000] by simp

text \<open>
  A product that is not exact: the number nearest to 2.007, times 1000, is rounded to
  \<open>2007 + 1 / 2 ^ 42\<close>.
\<close>

lemma roundDouble_product_2007:
  "roundDouble (4519362226066293 / 2251799813685248 * 1000)
   = Double (8826879347785729 / 4398046511104)"
proof -
  let ?a = "4519362226066293 / 2251799813685248 * 1000 :: rat"
  have j: "ulpExp 2045 ?a = - 42"
    by (rule ulpExp_unique) simp_all
  have a: "\<bar>?a\<bar> = ?a" by simp
  have q: "?a / 2 powi (- 42) = 8826879347785729 - 31 / 64"
    by (simp add: power_int_minus)
  have f: "\<lfloor>8826879347785729 - 31 / 64 :: rat\<rfloor> = 8826879347785728"
    by (rule floor_unique) simp_all
  have r: "roundHalfEven (8826879347785729 - 31 / 64) = 8826879347785729"
    unfolding roundHalfEven_def Let_def f by simp
  show ?thesis
    unfolding roundDouble_def Let_def a j q r
    by (simp add: power_int_minus)
qed

section \<open>The route guard: validity of the session\<close>

lemma isValid_readRoles: "readRoles r s = Some s' \<Longrightarrow> isValid s' = isValid s"
  by (auto simp add: readRoles_def split: jsval.splits option.splits)

lemma isValid_readLinkStatus: "isValid (readLinkStatus z s) = isValid s"
  by (simp add: readLinkStatus_def split: jsval.splits)

text \<open>
  The session is valid only through a positive numeric \<^verbatim>\<open>exp\<close> whose rounded product
  with 1000 lies after the clock.
\<close>

lemma isValid_decodePayload:
  "isValid (decodePayload nowMs payload)
   = (case getProp payload ''exp'' of
        Some (JNum e) \<Rightarrow> 0 < e \<and> doubleLess (Double (of_int nowMs)) (roundDouble (e * 1000))
      | _ \<Rightarrow> False)"
  by (auto simp add: decodePayload_def Let_def readExp_def initialState_def isValid_readLinkStatus
      dest: isValid_readRoles split: option.splits jsval.splits)

text \<open>
  The product is rounded before it is compared: with \<^verbatim>\<open>exp\<close> the number nearest to 2.007,
  which lies above 2.007, and the clock at 2007 milliseconds the session is valid.
\<close>

lemma rounded_product_valid:
  "\<not> (4519362226066293 / 2251799813685248 \<le> (of_int 2007 :: rat) / 1000)
   \<and> isValid (decodePayload 2007 (JObj [(''exp'', JNum (4519362226066293 / 2251799813685248))]))"
proof -
  have "roundDouble (564920278258286625 / 281474976710656)
        = Double (8826879347785729 / 4398046511104)"
    using roundDouble_product_2007 by simp
  then show ?thesis by (simp add: isValid_decodePayload)
qed

lemma decodePayload_without_exp:
  "getProp payload ''exp'' = Some JUndefined \<Longrightarrow> isValid (decodePayload nowMs payload) = False"
  by (simp add: isValid_decodePayload)

text \<open>With an invalid session only the public path is let through.\<close>

lemma middleware_invalid:
  assumes "\<not> isValid (decodeToken (parsePayload env) (now env) (accessToken request))"
  shows "middleware env request
       = (if pathname request = ''/login'' then (continue, []) else recoverSession env request)"
  using assms by (simp add: middleware_def Let_def landingRedirect_def publicPaths_def)

text \<open>What the recovery branch returns, written out.\<close>

lemma recoverSession_unfold:
  "recoverSession env request =
     (let login = \<lparr>target = Redirect ''/login''
                             (if prefix ''/login'' (pathname request) then None
                              else Some (href request)),
                   cookiesSet = [],
                   cookiesDeleted = [''access_token'', ''refresh_token'']\<rparr>
      in case refreshToken request of
           None \<Rightarrow> (login, [])
         | Some rt \<Rightarrow>
             if rt = [] then (login, [])
             else (case fetchRefresh env rt of
                     FetchThrows \<Rightarrow> (login, [rt])
                   | FetchResponse ok body \<Rightarrow>
                       (case (if ok then body else None) of
                          None \<Rightarrow> (login, [rt])
                        | Some data \<Rightarrow>
                            (case getProp data ''access_token'' of
                               None \<Rightarrow> (login, [rt])
                             | Some tok \<Rightarrow>
                                 if truthy tok
                                 then (\<lparr>target = Next,
                                        cookiesSet = (''access_token'', tok) #
                                          (case getProp data ''refresh_token'' of
                                             None \<Rightarrow> []
                                           | Some r \<Rightarrow>
                                               if truthy r then [(''refresh_token'', r)] else []),
                                        cookiesDeleted = []\<rparr>, [rt])
                                 else (login, [rt])))))"
  by (simp add: recoverSession_def refreshedResponse_def loginRedirect_def Let_def
      split: option.splits FetchResult.splits bool.splits)

text \<open>
  C3, amended. For every request to a path other than \<^verbatim>\<open>/login\<close> whose access token
  decodes to a payload with a numeric \<^verbatim>\<open>exp\<close> whose exact value is at or before the
  current time in seconds (\<^verbatim>\<open>exp\<close> times 1000 at most \<^verbatim>\<open>Date.now()\<close>, the clock a time
  value below \<open>2 ^ 53\<close>), the guard holds the session invalid and then: without a refresh
  token, or with an empty one, it redirects to \<^verbatim>\<open>/login\<close> with the callback url, deletes
  both cookies and posts nothing; with a refresh token it posts that token once, and when
  the response is ok and its data hold a truthy \<^verbatim>\<open>access_token\<close> it continues the request,
  setting the new access token (and the new refresh token when the data hold a truthy
  one), and in every other case redirects to \<^verbatim>\<open>/login\<close> in the same way.
\<close>

theorem expired_session_recovery:
  assumes "accessToken request = Some t" and "parsePayload env t = Some payload"
    and "getProp payload ''exp'' = Some (JNum e)" and "e \<le> of_int (now env) / 1000"
    and "now env < 2 ^ 53" and "pathname request \<noteq> ''/login''"
  shows "isValid (decodeToken (parsePayload env) (now env) (accessToken request)) = False
       \<and> middleware env request =
          (let login = \<lparr>target = Redirect ''/login''
                                  (if prefix ''/login'' (pathname request) then None
                                   else Some (href request)),
                        cookiesSet = [],
                        cookiesDeleted = [''access_token'', ''refresh_token'']\<rparr>
           in case refreshToken request of
                None \<Rightarrow> (login, [])
              | Some rt \<Rightarrow>
                  if rt = [] then (login, [])
                  else (case fetchRefresh env rt of
                          FetchThrows \<Rightarrow> (login, [rt])
                        | FetchResponse ok body \<Rightarrow>
                            (case (if ok then body else None) of
                               None \<Rightarrow> (login, [rt])
                             | Some data \<Rightarrow>
                                 (case getProp data ''access_token'' of
                                    None \<Rightarrow> (login, [rt])
                                  | Some tok \<Rightarrow>
                                      if truthy tok
                                      then (\<lparr>target = Next,
                                             cookiesSet = (''access_token'', tok) #
                                               (case getProp data ''refresh_token'' of
                                                  None \<Rightarrow> []
                                                | Some r \<Rightarrow>
                                                    if truthy r then [(''refresh_token'', r)]
                                                    else []),
                                             cookiesDeleted = []\<rparr>, [rt])
                                      else (login, [rt])))))"
proof -
  have le: "e * 1000 \<le> of_int (now env)"
    using assms(4) by (simp add: pos_le_divide_eq)
  have v: "\<not> (0 < e \<and> doubleLess (Double (of_int (now env))) (roundDouble (e * 1000)))"
  proof
    assume h: "0 < e \<and> doubleLess (Double (of_int (now env))) (roundDouble (e * 1000))"
    then have "0 \<le> e * 1000" by simp
    then obtain d where d: "roundDouble (e * 1000) = Double d" "d \<le> of_int (now env)"
      using roundDouble_le_int [OF _ le assms(5)] by blast
    then show False using h by simp
  qed
  have inv: "\<not> isValid (decodeToken (parsePayload env) (now env) (accessToken request))"
    using assms(1-3) v by (simp add: decodeToken_def initialState_def isValid_decodePayload)
  have m: "middleware env request = recoverSession env request"
    using middleware_invalid [OF inv] assms(6) by simp
  show ?thesis using inv unfolding m recoverSession_unfold [symmetric] by simp
qed

theorem expired_session_recovery_witness:
  "accessToken (exRequest ''/admin'') = Some ''h.p.s''
   \<and> parsePayload (exEnv exExpiredPayload) ''h.p.s'' = Some exExpiredPayload
   \<and> getProp exExpiredPayload ''exp'' = Some (JNum 1)
   \<and> (1::rat) \<le> of_int (now (exEnv exExpiredPayload)) / 1000
   \<and> now (exEnv exExpiredPayload) < 2 ^ 53
   \<and> pathname (exRequest ''/admin'') \<noteq> ''/login''
   \<and> isValid (decodeToken (parsePayload (exEnv exExpiredPayload)) (now (exEnv exExpiredPayload))
                (accessToken (exRequest ''/admin''))) = False
   \<and> middleware (exEnv exExpiredPayload) (exRequest ''/admin'')
     = (\<lparr>target = Next, cookiesSet = [(''access_token'', JStr ''fresh'')], cookiesDeleted = []\<rparr>,
        [''r''])"
proof -
  have h1: "accessToken (exRequest ''/admin'') = Some ''h.p.s''" by (simp add: exRequest_def)
  have h2: "parsePayload (exEnv exExpiredPayload) ''h.p.s'' = Some exExpiredPayload"
    by (simp add: exEnv_def exParse_def)
  have h3: "getProp exExpiredPayload ''exp'' = Some (JNum 1)" by (simp add: exExpiredPayload_def)
  have h4: "(1::rat) \<le> of_int (now (exEnv exExpiredPayload)) / 1000" by (simp add: exEnv_def)
  have h5: "now (exEnv exExpiredPayload) < 2 ^ 53" by (simp add: exEnv_def)
  have h6: "pathname (exRequest ''/admin'') \<noteq> ''/login''" by (simp add: exRequest_def)
  have m: "middleware (exEnv exExpiredPayload) (exRequest ''/admin'')
     = (\<lparr>target = Next, cookiesSet = [(''access_token'', JStr ''fresh'')], cookiesDeleted = []\<rparr>,
        [''r''])"
    by (simp add: ex_defs guard_defs roundDouble_1000 roundDouble_10000)
  show ?thesis using expired_session_recovery [OF h1 h2 h3 h4 h5 h6] h1 h2 h3 h4 h5 h6 m by simp
qed

text \<open>
  On \<^verbatim>\<open>/login\<close> the expired session is let through: the response continues the request,
  and the refresh token of the request is not posted.
\<close>

theorem expired_session_counterexample:
  "accessToken (exRequest ''/login'') = Some ''h.p.s''
   \<and> parsePayload (exEnv exExpiredPayload) ''h.p.s'' = Some exExpiredPayload
   \<and> getProp exExpiredPayload ''exp'' = Some (JNum 1)
   \<and> (1::rat) \<le> of_int (now (exEnv exExpiredPayload)) / 1000
   \<and> refreshToken (exRequest ''/login'') = Some ''r''
   \<and> middleware (exEnv exExpiredPayload) (exRequest ''/login'')
     = (\<lparr>target = Next, cookiesSet = [], cookiesDeleted = []\<rparr>, [])"
  by (simp add: ex_defs guard_defs continue_def roundDouble_1000 roundDouble_10000)

text \<open>\<^verbatim>\<open>getUserFromToken\<close>, on the client side, does accept a payload without \<^verbatim>\<open>exp\<close>.\<close>

lemma getUserFromToken_without_exp:
  "parse t = Some payload \<Longrightarrow> getProp payload ''exp'' = Some JUndefined
   \<Longrightarrow> getUserFromToken parse toNumber nowMs t \<noteq> None"
  by (simp add: getUserFromToken_def expired_def)

text \<open>
  C4, amended. For every token that decodes and whose payload has no \<^verbatim>\<open>exp\<close>, the route
  guard holds the session invalid (\<^verbatim>\<open>isValid\<close> keeps its initial \<^verbatim>\<open>false\<close>): the request
  continues only on \<^verbatim>\<open>/login\<close> and goes to the recovery of the session on every other
  path.
\<close>

theorem missing_exp_invalid:
  assumes "accessToken request = Some t" and "parsePayload env t = Some payload"
    and "getProp payload ''exp'' = Some JUndefined"
  shows "isValid (decodeToken (parsePayload env) (now env) (accessToken request)) = False
       \<and> middleware env request
         = (if pathname request = ''/login'' then (continue, []) else recoverSession env request)"
proof -
  have inv: "\<not> isValid (decodeToken (parsePayload env) (now env) (accessToken request))"
    using assms by (simp add: decodeToken_def initialState_def decodePayload_without_exp)
  show ?thesis using inv middleware_invalid [OF inv] by simp
qed

theorem missing_exp_invalid_witness:
  "accessToken (exRequest ''/statistic/debts'') = Some ''h.p.s''
   \<and> parsePayload (exEnv exNoExpPayload) ''h.p.s'' = Some exNoExpPayload
   \<and> getProp exNoExpPayload ''exp'' = Some JUndefined
   \<and> isValid (decodeToken (parsePayload (exEnv exNoExpPayload)) (now (exEnv exNoExpPayload))
                (accessToken (exRequest ''/statistic/debts''))) = False
   \<and> middleware (exEnv exNoExpPayload) (exRequest ''/statistic/debts'')
     = recoverSession (exEnv exNoExpPayload) (exRequest ''/statistic/debts'')"
proof -
  have h1: "accessToken (exRequest ''/statistic/debts'') = Some ''h.p.s''"
    by (simp add: exRequest_def)
  have h2: "parsePayload (exEnv exNoExpPayload) ''h.p.s'' = Some exNoExpPayload"
    by (simp add: exEnv_def exParse_def)
  have h3: "getProp exNoExpPayload ''exp'' = Some JUndefined" by (simp add: exNoExpPayload_def)
  have p: "pathname (exRequest ''/statistic/debts'') \<noteq> ''/login''" by (simp add: exRequest_def)
  show ?thesis using missing_exp_invalid [OF h1 h2 h3] h1 h2 h3 p by simp
qed

theorem missing_exp_counterexample:
  "accessToken (exRequest ''/admin'') = Some ''h.p.s''
   \<and> parsePayload (exEnv exNoExpPayload) ''h.p.s'' = Some exNoExpPayload
   \<and> getProp exNoExpPayload ''exp'' = Some JUndefined
   \<and> isValid (decodeToken (parsePayload (exEnv exNoExpPayload)) (now (exEnv exNoExpPayload))
                (accessToken (exRequest ''/admin''))) = False"
  by (simp add: ex_defs guard_defs roundDouble_1000 roundDouble_10000)

section \<open>The route guard: the link-status override\<close>

text \<open>Once the decoded state is valid with link status 2, the override decides.\<close>

lemma link_status_override:
  assumes "s = decodeToken (parsePayload env) (now env) (accessToken request)"
    and "isValid s" and "zaloLinkStatus s = 2"
  shows "middleware env request
       = (if pathname request \<noteq> zaloLinkPath then (redirectTo zaloLinkPath, [])
          else (continue, []))"
  using assms by (simp add: middleware_def Let_def)

text \<open>
  The decoded state is that one when the expiry lies ahead, the claim \<^verbatim>\<open>zaloLinkStatus\<close>
  is 2 and the mapping of the roles does not throw.
\<close>

lemma decodePayload_link_status:
  assumes "getProp payload ''exp'' = Some (JNum e)"
    and "doubleLess (Double (of_int nowMs)) (roundDouble (e * 1000))" and "0 < e"
    and "getProp payload ''roles'' = Some r" and "readRoles r initialState \<noteq> None"
    and "getProp payload ''zaloLinkStatus'' = Some (JNum 2)"
  shows "isValid (decodePayload nowMs payload) \<and> zaloLinkStatus (decodePayload nowMs payload) = 2"
  using assms
  by (auto simp add: decodePayload_def Let_def readExp_def readRoles_def readLinkStatus_def
      initialState_def split: option.splits jsval.splits)

text \<open>
  C5, at the payload \<^verbatim>\<open>{"exp": 10, "roles": [null], "zaloLinkStatus": 2}\<close> read at 5000
  milliseconds, on the path \<^verbatim>\<open>/statistic/debts\<close>. The token is valid and its claim
  \<^verbatim>\<open>zaloLinkStatus\<close> equals 2, but \<^verbatim>\<open>role.name\<close> throws on the \<^verbatim>\<open>null\<close> role after
  \<^verbatim>\<open>isValid\<close> was set and before the link status is read: the variable keeps its 0 and
  the guard lets the request continue instead of redirecting it to the account-linking
  path.
\<close>

theorem link_status_lost_with_null_role:
  "parsePayload (exEnv exNullRolePayload) ''h.p.s'' = Some exNullRolePayload
   \<and> getProp exNullRolePayload ''zaloLinkStatus'' = Some (JNum 2)
   \<and> isValid (decodeToken (parsePayload (exEnv exNullRolePayload)) (now (exEnv exNullRolePayload))
                (accessToken (exRequest ''/statistic/debts''))) = True
   \<and> zaloLinkStatus (decodeToken (parsePayload (exEnv exNullRolePayload))
                (now (exEnv exNullRolePayload)) (accessToken (exRequest ''/statistic/debts''))) = 0
   \<and> middleware (exEnv exNullRolePayload) (exRequest ''/statistic/debts'')
     = (\<lparr>target = Next, cookiesSet = [], cookiesDeleted = []\<rparr>, [])"
  by (simp add: ex_defs guard_defs continue_def roundDouble_1000 roundDouble_10000)

section \<open>The route guard: the authorization check\<close>

lemma find_append_case:
  "find P (xs @ ys) = (case find P xs of None \<Rightarrow> find P ys | Some x \<Rightarrow> Some x)"
  by (induction xs) simp_all

lemma firstAllowedUrl_find:
  "firstAllowedUrl r is = map_option url (find (itemAllowed r) is)"
  by (induction "is") simp_all

text \<open>The nested iteration returns the url of the first allowed item of the first group that has one.\<close>

lemma getFirstAccessibleUrl_find:
  "getFirstAccessibleUrl nav r = map_option url (find (itemAllowed r) (concat (map items nav)))"
  by (induction nav) (simp_all add: firstAllowedUrl_find find_append_case split: option.splits)

lemma accessibleAmong_iff:
  "accessibleAmong r p is \<longleftrightarrow> (\<exists>item \<in> set is. url item = p \<and> itemAllowed r item)"
  by (induction "is") auto

lemma isAccessible_iff:
  "isAccessible nav r p
   \<longleftrightarrow> (\<exists>item \<in> set (concat (map items nav)). url item = p \<and> itemAllowed r item)"
  by (induction nav) (auto simp add: accessibleAmong_iff)

lemma middleware_valid_unlinked:
  assumes "s = decodeToken (parsePayload env) (now env) (accessToken request)"
    and "isValid s" and "zaloLinkStatus s \<noteq> 2" and "pathname request \<noteq> zaloLinkPath"
  shows "middleware env request
       = (case landingRedirect env s request of
            Some response \<Rightarrow> (response, [])
          | None \<Rightarrow> if pathname request = ''/login'' then (continue, [])
                    else (authorize env s request, []))"
  using assms by (simp add: middleware_def Let_def publicPaths_def split: option.splits)

text \<open>
  C8, amended. For every valid session whose link status is not 2, requesting a path other
  than the account-linking path that appears in the navigation table and is not accessible
  under the roles of the token: if some navigation item is allowed (its roles absent, or
  one of them among the roles of the token), the guard redirects to the url of the first
  such item, first group first, when that url is not empty; if no item is allowed, or the
  url is empty, the guard lets the request continue. No refresh is attempted.
\<close>

theorem authorization_redirect:
  assumes "s = decodeToken (parsePayload env) (now env) (accessToken request)"
    and "isValid s" and "zaloLinkStatus s \<noteq> 2" and "pathname request \<noteq> zaloLinkPath"
    and "pathname request \<in> set (allUrls (navItems env))"
    and "\<not> isAccessible (navItems env) (tokenRoles s) (pathname request)"
  shows "middleware env request
       = ((case find (itemAllowed (tokenRoles s)) (concat (map items (navItems env))) of
             None \<Rightarrow> continue
           | Some item \<Rightarrow> if url item \<noteq> [] then redirectTo (url item) else continue), [])"
proof -
  let ?first = "find (itemAllowed (tokenRoles s)) (concat (map items (navItems env)))"
  have g: "getFirstAccessibleUrl (navItems env) (tokenRoles s) = map_option url ?first"
    by (rule getFirstAccessibleUrl_find)
  have a: "authorize env s request
         = (case ?first of None \<Rightarrow> continue
            | Some item \<Rightarrow> if url item \<noteq> [] then redirectTo (url item) else continue)"
    using assms(5,6) by (simp add: authorize_def g split: option.splits)
  have l: "landingRedirect env s request
         = (if pathname request = ''/'' \<or> pathname request = ''/login''
               \<or> pathname request = ''/dashboard''
            then (case ?first of None \<Rightarrow> None
                  | Some item \<Rightarrow> if url item \<noteq> [] then Some (redirectTo (url item)) else None)
            else None)"
    using assms(2) by (simp add: landingRedirect_def g split: option.splits)
  show ?thesis
    unfolding middleware_valid_unlinked [OF assms(1-4)] l a
    by (simp split: option.splits)
qed

lemma exMember_state:
  "decodeToken (parsePayload (exEnv exMemberPayload)) (now (exEnv exMemberPayload))
     (accessToken (exRequest path))
   = \<lparr>isValid = True, tokenRoles = [JStr ''user-cong-no''], zaloLinkStatus = 0\<rparr>"
  by (simp add: ex_defs guard_defs roundDouble_1000 roundDouble_10000)

theorem authorization_redirect_witness:
  "isValid \<lparr>isValid = True, tokenRoles = [JStr ''user-cong-no''], zaloLinkStatus = 0\<rparr>
   \<and> zaloLinkStatus \<lparr>isValid = True, tokenRoles = [JStr ''user-cong-no''], zaloLinkStatus = 0\<rparr> \<noteq> 2
   \<and> pathname (exRequest ''/admin'') \<noteq> zaloLinkPath
   \<and> pathname (exRequest ''/admin'') \<in> set (allUrls (navItems (exEnv exMemberPayload)))
   \<and> \<not> isAccessible (navItems (exEnv exMemberPayload)) [JStr ''user-cong-no'']
          (pathname (exRequest ''/admin''))
   \<and> middleware (exEnv exMemberPayload) (exRequest ''/admin'')
     = (\<lparr>target = Redirect ''/statistic/debts'' None, cookiesSet = [], cookiesDeleted = []\<rparr>, [])"
proof -
  let ?s = "\<lparr>isValid = True, tokenRoles = [JStr ''user-cong-no''], zaloLinkStatus = 0\<rparr>"
  have h1: "?s = decodeToken (parsePayload (exEnv exMemberPayload)) (now (exEnv exMemberPayload))
                   (accessToken (exRequest ''/admin''))"
    by (simp add: exMember_state)
  have h2: "isValid ?s" by simp
  have h3: "zaloLinkStatus ?s \<noteq> 2" by simp
  have h4: "pathname (exRequest ''/admin'') \<noteq> zaloLinkPath"
    by (simp add: exRequest_def zaloLinkPath_def)
  have h5: "pathname (exRequest ''/admin'') \<in> set (allUrls (navItems (exEnv exMemberPayload)))"
    by (simp add: exRequest_def exEnv_def exNav_def allUrls_def)
  have h6: "\<not> isAccessible (navItems (exEnv exMemberPayload)) (tokenRoles ?s)
               (pathname (exRequest ''/admin''))"
    by (simp add: exRequest_def exEnv_def exNav_def itemAllowed_def hasRole_def)
  have f: "find (itemAllowed (tokenRoles ?s)) (concat (map items (navItems (exEnv exMemberPayload))))
         = Some \<lparr>title = ''Cong no'', url = ''/statistic/debts'', itemRoles = None\<rparr>"
    by (simp add: exEnv_def exNav_def itemAllowed_def)
  show ?thesis
    using authorization_redirect [OF h1 h2 h3 h4 h5 h6] h2 h3 h4 h5 h6
    unfolding f by (simp add: redirectTo_def)
qed

text \<open>
  With link status 2 the override comes first: the request for the inaccessible
  \<^verbatim>\<open>/admin\<close> is redirected to the account-linking path, not to the first accessible
  url \<^verbatim>\<open>/statistic/debts\<close>.
\<close>

theorem authorization_redirect_counterexample:
  "isValid (decodeToken (parsePayload (exEnv exLinkErrorPayload)) (now (exEnv exLinkErrorPayload))
              (accessToken (exRequest ''/admin''))) = True
   \<and> tokenRoles (decodeToken (parsePayload (exEnv exLinkErrorPayload))
              (now (exEnv exLinkErrorPayload)) (accessToken (exRequest ''/admin'')))
     = [JStr ''user-cong-no'']
   \<and> ''/admin'' \<in> set (allUrls (navItems (exEnv exLinkErrorPayload)))
   \<and> isAccessible (navItems (exEnv exLinkErrorPayload)) [JStr ''user-cong-no''] ''/admin'' = False
   \<and> getFirstAccessibleUrl (navItems (exEnv exLinkErrorPayload)) [JStr ''user-cong-no'']
     = Some ''/statistic/debts''
   \<and> middleware (exEnv exLinkErrorPayload) (exRequest ''/admin'')
     = (\<lparr>target = Redirect ''/dashboard/link-account'' None, cookiesSet = [],
         cookiesDeleted = []\<rparr>, [])"
  by (simp add: ex_defs guard_defs redirectTo_def roundDouble_1000 roundDouble_10000)

end
